theory Spec2Isabelle
  imports Main
begin

section \<open>Python strings\<close>

text \<open>
  A Python \<^verbatim>\<open>str\<close> is a sequence of Unicode code points, so it is modelled as a list of
  natural numbers, one per code point; slicing and \<^verbatim>\<open>len\<close> then count what Python counts.
  \<open>lit\<close> turns an ASCII literal into such a string.
\<close>

type_synonym str = "nat list"

definition lit :: "string \<Rightarrow> str" where
  "lit s = map of_char s"

text \<open>\<^verbatim>\<open>sep.join(parts)\<close>\<close>

fun join :: "str \<Rightarrow> str list \<Rightarrow> str" where
  "join sep [] = []"
| "join sep [l] = l"
| "join sep (l # m # ls) = l @ sep @ join sep (m # ls)"

text \<open>\<^verbatim>\<open>s.split(c)\<close> for a separator of one code point: never the empty list.\<close>

fun split :: "nat \<Rightarrow> str \<Rightarrow> str list" where
  "split c [] = [[]]"
| "split c (x # xs) =
     (if x = c then [] # split c xs
      else (case split c xs of
              [] \<Rightarrow> [[x]]
            | l # ls \<Rightarrow> (x # l) # ls))"

text \<open>\<^verbatim>\<open>s.startswith(p)\<close>\<close>

fun startswith :: "str \<Rightarrow> str \<Rightarrow> bool" where
  "startswith s [] = True"
| "startswith [] (p # ps) = False"
| "startswith (x # xs) (p # ps) = (x = p \<and> startswith xs ps)"

text \<open>The lowest index at which \<open>sub\<close> occurs in \<open>s\<close>, if any.\<close>

fun find_first :: "str \<Rightarrow> str \<Rightarrow> nat option" where
  "find_first sub [] = (if sub = [] then Some 0 else None)"
| "find_first sub (x # xs) =
     (if startswith (x # xs) sub then Some 0
      else map_option Suc (find_first sub xs))"

text \<open>\<^verbatim>\<open>sub in s\<close>\<close>

definition contains :: "str \<Rightarrow> str \<Rightarrow> bool" where
  "contains sub s = (find_first sub s \<noteq> None)"

text \<open>\<^verbatim>\<open>s.find(sub, start)\<close> for \<open>start \<ge> 0\<close>: the index, or \<open>-1\<close>.\<close>

definition str_find :: "str \<Rightarrow> str \<Rightarrow> nat \<Rightarrow> int" where
  "str_find s sub start =
     (if length s < start then - 1
      else (case find_first sub (drop start s) of
              None \<Rightarrow> - 1
            | Some i \<Rightarrow> int (start + i)))"

text \<open>
  \<^verbatim>\<open>s[a:b]\<close> with Python's treatment of the bounds: a negative bound counts from the end,
  and both are clamped to the string.
\<close>

definition norm_index :: "nat \<Rightarrow> int \<Rightarrow> nat" where
  "norm_index n i = (if i < 0 then nat (max 0 (int n + i)) else min n (nat i))"

definition slice :: "str \<Rightarrow> int \<Rightarrow> int \<Rightarrow> str" where
  "slice s a b =
     (let lo = norm_index (length s) a; hi = norm_index (length s) b
      in take (hi - lo) (drop lo s))"

text \<open>
  \<^verbatim>\<open>s.strip()\<close> removes leading and trailing whitespace; \<open>is_space\<close> is the set of code
  points for which \<^verbatim>\<open>str.isspace\<close> holds.
\<close>

definition is_space :: "nat \<Rightarrow> bool" where
  "is_space c =
     ((9 \<le> c \<and> c \<le> 13) \<or> (28 \<le> c \<and> c \<le> 32) \<or> c = 133 \<or> c = 160 \<or> c = 5760
      \<or> (8192 \<le> c \<and> c \<le> 8202) \<or> c = 8232 \<or> c = 8233 \<or> c = 8239 \<or> c = 8287
      \<or> c = 12288)"

definition strip :: "str \<Rightarrow> str" where
  "strip s = rev (dropWhile is_space (rev (dropWhile is_space s)))"

text \<open>\<^verbatim>\<open>str(n)\<close> for an integer: decimal digits, with a minus sign when negative.\<close>

fun digits :: "nat \<Rightarrow> str" where
  "digits n = (if n < 10 then [48 + n] else digits (n div 10) @ [48 + n mod 10])"

declare digits.simps [simp del]

definition str_int :: "int \<Rightarrow> str" where
  "str_int i = (if i < 0 then 45 # digits (nat (- i)) else digits (nat i))"

section \<open>Exceptions and the Python built-ins the tool relies on\<close>

text \<open>
  An instance of \<^verbatim>\<open>Exception\<close>, carrying what \<^verbatim>\<open>str(error)\<close> returns. A call that can
  raise returns \<open>exn + 'a\<close>, with \<open>Inl\<close> the raised exception. What
  \<^verbatim>\<open>except Exception\<close> does not catch (cancellation, interpreter exit) is not modelled.
\<close>

datatype exn = Exception str

fun describe :: "exn \<Rightarrow> str" where
  "describe (Exception d) = d"

text \<open>What \<^verbatim>\<open>is_valid_url\<close> reads of the result of \<^verbatim>\<open>urlparse\<close>.\<close>

record ParseResult =
  scheme :: str
  netloc :: str

text \<open>
  \<^verbatim>\<open>str.lower\<close>, \<^verbatim>\<open>str.upper\<close>, \<^verbatim>\<open>int(s)\<close> and \<^verbatim>\<open>urllib.parse.urlparse\<close> belong to the
  Python runtime, not to this repository, and depend on Unicode tables and on the
  interpreter's version. The functions below take them as a parameter, so every theorem
  about them holds for whatever the runtime does. \<open>int_of_str\<close> is \<open>None\<close> where
  \<^verbatim>\<open>int\<close> raises \<^verbatim>\<open>ValueError\<close>.
\<close>

record runtime =
  lower :: "str \<Rightarrow> str"
  upper :: "str \<Rightarrow> str"
  int_of_str :: "str \<Rightarrow> int option"
  urlparse :: "str \<Rightarrow> exn + ParseResult"

section \<open>Network and console records\<close>

text \<open>
  The browser driver's request and response objects, as far as the tool reads them.
  \<open>req_id\<close> is the identity of the object: the driver's objects compare by identity.
  \<open>post_data\<close> and \<open>text_result\<close> are what awaiting \<^verbatim>\<open>request.post_data()\<close> and
  \<^verbatim>\<open>response.text()\<close> gives; \<open>headers\<close> is the header dictionary.
\<close>

record Request =
  req_id :: nat
  http_method :: str
  url :: str
  post_data :: "exn + str option"

record Response =
  resp_request :: Request
  status :: int
  headers :: "(str \<times> str) list"
  text_result :: "exn + str"

record NetworkRequest =
  request :: "Request option"
  response :: "Response option"
  request_body :: "str option"
  response_body :: "str option"

text \<open>
  A console message: \<open>msg_type\<close> and \<open>msg_text\<close> are the attributes \<^verbatim>\<open>type\<close> and
  \<^verbatim>\<open>text\<close> when the object has them, \<open>msg_str\<close> is \<^verbatim>\<open>str(msg)\<close>.
\<close>

record ConsoleMessage =
  msg_type :: "str option"
  msg_text :: "str option"
  msg_str :: str

section \<open>Report formatting\<close>

text \<open>The lines one record adds to the network section: the body of the loop.\<close>

definition format_entry :: "NetworkRequest \<Rightarrow> str list" where
  "format_entry req =
     (case request req of
        None \<Rightarrow> []
      | Some rq \<Rightarrow>
          [[127760] @ lit '' '' @ http_method rq @ lit '' '' @ url rq,
           lit ''   Status: '' @
             (case response req of
                Some rs \<Rightarrow> str_int (status rs)
              | None \<Rightarrow> lit ''Pending'')]
          @ (case response_body req of
               None \<Rightarrow> []
             | Some b \<Rightarrow>
                 if b \<noteq> [] then [lit ''   Response: '' @ take 200 b @ lit ''...'']
                 else []))"

definition format_lines :: "NetworkRequest list \<Rightarrow> str list" where
  "format_lines requests = concat (map format_entry requests)"

definition format_requests :: "NetworkRequest list \<Rightarrow> str" where
  "format_requests requests =
     (if requests = [] then lit ''No requests captured''
      else join [10] (format_lines requests))"

definition format_message :: "runtime \<Rightarrow> ConsoleMessage \<Rightarrow> str" where
  "format_message rt msg =
     [128421, 65039] @ lit '' ['' @
     upper rt (case msg_type msg of Some t \<Rightarrow> t | None \<Rightarrow> lit ''log'') @ lit ''] '' @
     (case msg_text msg of Some t \<Rightarrow> t | None \<Rightarrow> msg_str msg)"

definition format_console :: "runtime \<Rightarrow> ConsoleMessage list \<Rightarrow> str" where
  "format_console rt messages =
     (if messages = [] then lit ''No console messages''
      else join [10] (map (format_message rt) messages))"

section \<open>Snapshot annotator\<close>

text \<open>
  The interactivity heuristic of \<^verbatim>\<open>add_element_refs\<close>:
  \<^verbatim>\<open>any(keyword in line.lower() for keyword in ["button", "link", "input", "textbox"])\<close>.
\<close>

definition ref_keywords :: "str list" where
  "ref_keywords = [lit ''button'', lit ''link'', lit ''input'', lit ''textbox'']"

definition interactive :: "runtime \<Rightarrow> str \<Rightarrow> bool" where
  "interactive rt line = list_ex (\<lambda>keyword. contains keyword (lower rt line)) ref_keywords"

text \<open>The suffix \<^verbatim>\<open>f" [ref={ref_counter}]"\<close>.\<close>

definition ref_tag :: "int \<Rightarrow> str" where
  "ref_tag n = lit '' [ref='' @ str_int n @ lit '']''"

text \<open>
  The loop of \<^verbatim>\<open>add_element_refs\<close> over the lines, with \<^verbatim>\<open>ref_counter\<close> as its
  second argument: a matching line gets the tag and the counter goes up by one.
\<close>

fun annotate :: "runtime \<Rightarrow> int \<Rightarrow> str list \<Rightarrow> str list" where
  "annotate rt ref_counter [] = []"
| "annotate rt ref_counter (line # rest) =
     (if interactive rt line
      then (line @ ref_tag ref_counter) # annotate rt (ref_counter + 1) rest
      else line # annotate rt ref_counter rest)"

definition add_element_refs :: "runtime \<Rightarrow> str \<Rightarrow> str" where
  "add_element_refs rt snapshot = join [10] (annotate rt 1 (split 10 snapshot))"

text \<open>One entry of the reference table: the dictionary with keys \<^verbatim>\<open>ref\<close> and \<^verbatim>\<open>element\<close>.\<close>

record ElementRef =
  ref :: str
  element :: str

text \<open>
  What \<^verbatim>\<open>parse_refs\<close> appends for one line: nothing, or one entry. In the branch
  that searches for the closing bracket the marker was found, so \<open>ref_start\<close> is at
  least 5 and \<open>nat\<close> changes nothing.
\<close>

definition parse_line :: "str \<Rightarrow> ElementRef list" where
  "parse_line line =
     (if contains (lit ''[ref='') line
      then (let ref_start = str_find line (lit ''[ref='') 0 + 5;
                ref_end = str_find line (lit '']'') (nat ref_start)
            in if ref_end > ref_start
               then [\<lparr>ref = slice line ref_start ref_end,
                      element = strip (slice line 0 (str_find line (lit ''[ref='') 0))\<rparr>]
               else [])
      else [])"

definition parse_refs :: "str \<Rightarrow> ElementRef list" where
  "parse_refs snapshot = concat (map parse_line (split 10 snapshot))"

section \<open>URL validator\<close>

text \<open>
  \<^verbatim>\<open>all([parsed.scheme, parsed.netloc])\<close>: both strings non-empty. The function has no
  handler, so an exception of \<^verbatim>\<open>urlparse\<close> is the function's own.
\<close>

definition is_valid_url :: "runtime \<Rightarrow> str \<Rightarrow> exn + bool" where
  "is_valid_url rt u =
     (case urlparse rt u of
        Inl e \<Rightarrow> Inl e
      | Inr parsed \<Rightarrow> Inr (scheme parsed \<noteq> [] \<and> netloc parsed \<noteq> []))"

section \<open>Network recorder\<close>

definition should_show_content :: "str \<Rightarrow> int \<Rightarrow> bool" where
  "should_show_content content_type content_length =
     (content_length \<le> 50000 \<and>
      list_ex (\<lambda>t. startswith content_type t)
        [lit ''application/json'', lit ''text/'', lit ''application/xml''])"

text \<open>\<^verbatim>\<open>headers.get(key, default)\<close>\<close>

definition header :: "(str \<times> str) list \<Rightarrow> str \<Rightarrow> str \<Rightarrow> str" where
  "header hs key dflt = (case map_of hs key of Some v \<Rightarrow> v | None \<Rightarrow> dflt)"

text \<open>
  The \<^verbatim>\<open>try\<close> block of \<^verbatim>\<open>handle_response\<close>: the value \<^verbatim>\<open>entry.response_body\<close> gets.
  \<^verbatim>\<open>int\<close> raising on the content-length header, or \<^verbatim>\<open>response.text()\<close> raising, ends in
  the \<^verbatim>\<open>except\<close> branch.
\<close>

definition captured_body :: "runtime \<Rightarrow> Response \<Rightarrow> str" where
  "captured_body rt resp =
     (let content_type = header (headers resp) (lit ''content-type'') []
      in case int_of_str rt (header (headers resp) (lit ''content-length'') (lit ''0'')) of
           None \<Rightarrow> lit ''[Error reading response]''
         | Some content_length \<Rightarrow>
             if should_show_content content_type content_length
             then (case text_result resp of
                     Inr body \<Rightarrow> body
                   | Inl e \<Rightarrow> lit ''[Error reading response]'')
             else lit ''['' @ content_type @ lit '' - '' @ str_int content_length
                    @ lit '' bytes]'')"

text \<open>
  The test of the loop in \<^verbatim>\<open>handle_response\<close>:
  \<^verbatim>\<open>entry.request == response.request and not entry.response\<close>. The driver's objects
  compare by identity and are true as conditions.
\<close>

definition awaits :: "Response \<Rightarrow> NetworkRequest \<Rightarrow> bool" where
  "awaits resp entry =
     (map_option req_id (request entry) = Some (req_id (resp_request resp))
      \<and> response entry = None)"

text \<open>
  \<^verbatim>\<open>handle_response\<close>: the first entry that passes the test gets the response and its
  body, and the loop breaks. The handler is taken to run to its end before the next event
  is handled.
\<close>

fun handle_response :: "runtime \<Rightarrow> Response \<Rightarrow> NetworkRequest list \<Rightarrow> NetworkRequest list" where
  "handle_response rt resp [] = []"
| "handle_response rt resp (entry # rest) =
     (if awaits resp entry
      then entry\<lparr>response := Some resp, response_body := Some (captured_body rt resp)\<rparr> # rest
      else entry # handle_response rt resp rest)"

text \<open>
  \<^verbatim>\<open>handle_request\<close>: a new record at the end of the list; the body is read for POST, PUT
  and PATCH, and a failure to read it is swallowed.
\<close>

definition handle_request :: "runtime \<Rightarrow> Request \<Rightarrow> NetworkRequest list \<Rightarrow> NetworkRequest list" where
  "handle_request rt req network_requests =
     network_requests @
       [\<lparr>request = Some req, response = None,
         request_body =
           (if upper rt (http_method req) \<in> set [lit ''POST'', lit ''PUT'', lit ''PATCH'']
            then (case post_data req of Inr b \<Rightarrow> b | Inl e \<Rightarrow> None)
            else None),
         response_body = None\<rparr>]"

text \<open>The events the page delivers to the three handlers.\<close>

datatype event =
  RequestEvent Request
| ResponseEvent Response
| ConsoleEvent ConsoleMessage

text \<open>The two lists the handlers share: \<^verbatim>\<open>network_requests\<close> and \<^verbatim>\<open>console_messages\<close>.\<close>

record recorder =
  network_requests :: "NetworkRequest list"
  console_messages :: "ConsoleMessage list"

fun handle_event :: "runtime \<Rightarrow> recorder \<Rightarrow> event \<Rightarrow> recorder" where
  "handle_event rt s (RequestEvent req) =
     s\<lparr>network_requests := handle_request rt req (network_requests s)\<rparr>"
| "handle_event rt s (ResponseEvent resp) =
     s\<lparr>network_requests := handle_response rt resp (network_requests s)\<rparr>"
| "handle_event rt s (ConsoleEvent msg) =
     s\<lparr>console_messages := console_messages s @ [msg]\<rparr>"

definition record_events :: "runtime \<Rightarrow> event list \<Rightarrow> recorder \<Rightarrow> recorder" where
  "record_events rt events s = foldl (handle_event rt) s events"

section \<open>Orchestrator\<close>

record TextContent =
  tc_type :: str
  tc_text :: str

text \<open>
  The calls \<^verbatim>\<open>website_snapshot\<close> makes on the browser driver, in the order it makes
  them: the observable browser work of one invocation.
\<close>

datatype effect =
  StartPlaywright
| Launch
| NewContext
| NewPage
| SetDefaultTimeout
| Subscribe str
| Goto str
| WaitForLoadState
| WaitForSelector
| WaitForTimeout
| AriaSnapshot
| Title
| ContextClose
| BrowserClose
| StopPlaywright

text \<open>
  What the driver answers in one invocation: for each awaited call its outcome
  (\<open>Inl\<close> when it raises), and the events the page delivers to the handlers between
  their registration and the assembly of the report.
\<close>

record browser =
  start_result :: "exn + unit"
  launch_result :: "exn + unit"
  new_context_result :: "exn + unit"
  new_page_result :: "exn + unit"
  goto_result :: "exn + unit"
  wait_for_load_state_result :: "exn + unit"
  wait_for_selector_result :: "exn + unit"
  wait_for_timeout_result :: "exn + unit"
  aria_snapshot_result :: "exn + str"
  title_result :: "exn + str"
  page_url :: str
  context_close_result :: "exn + unit"
  browser_close_result :: "exn + unit"
  stop_result :: "exn + unit"
  events :: "event list"

text \<open>
  A computation that calls the driver: the calls made, and the value returned or the
  exception raised. \<open>and_then\<close> runs the second part only when the first returned.
\<close>

type_synonym 'a action = "effect list \<times> (exn + 'a)"

definition call :: "effect \<Rightarrow> exn + 'a \<Rightarrow> 'a action" where
  "call eff outcome = ([eff], outcome)"

definition and_then :: "'a action \<Rightarrow> ('a \<Rightarrow> 'b action) \<Rightarrow> 'b action" where
  "and_then m f =
     (case m of
        (t, Inl e) \<Rightarrow> (t, Inl e)
      | (t, Inr a) \<Rightarrow> (case f a of (t', r) \<Rightarrow> (t @ t', r)))"

text \<open>The three text units of a successful capture.\<close>

definition report :: "runtime \<Rightarrow> str \<Rightarrow> str \<Rightarrow> str \<Rightarrow> recorder \<Rightarrow> TextContent list" where
  "report rt aria_snapshot title current_url s =
     (let snapshot_with_refs = add_element_refs rt aria_snapshot;
          element_refs = parse_refs snapshot_with_refs;
          output_parts =
            [[128269] @ lit '' '' @ title,
             [128205] @ lit '' '' @ current_url,
             [],
             [127917] @ lit '' Accessibility Snapshot:'',
             snapshot_with_refs,
             [], [127760] @ lit '' Network Requests:'', format_requests (network_requests s),
             [], [128421, 65039] @ lit '' Console:'', format_console rt (console_messages s)];
          summary_parts =
            [str_int (int (length element_refs)) @ lit '' elements'',
             str_int (int (length (filter (\<lambda>r. request r \<noteq> None) (network_requests s))))
               @ lit '' requests'',
             str_int (int (length (console_messages s))) @ lit '' console messages'']
      in [\<lparr>tc_type = lit ''text'',
            tc_text = [9989] @ lit '' Captured snapshot with '' @ join (lit '', '') summary_parts\<rparr>,
          \<lparr>tc_type = lit ''text'', tc_text = join [10] output_parts\<rparr>,
          \<lparr>tc_type = lit ''text'',
            tc_text = [127919] @ lit '' Element References:'' @ [10] @
              join [10] (map (\<lambda>r. lit ''[ref='' @ ref r @ lit '']: '' @ element r) element_refs)\<rparr>])"

text \<open>
  The body of the \<^verbatim>\<open>try\<close> block: context, page, subscriptions, navigation, the two
  waits (a failed selector wait is replaced by the settle delay), snapshot, report and
  the closing of the context. Setting the timeout and subscribing the handlers are local
  calls and are taken to return.
\<close>

definition capture :: "runtime \<Rightarrow> browser \<Rightarrow> str \<Rightarrow> TextContent list action" where
  "capture rt env target_url =
     and_then (call NewContext (new_context_result env)) (\<lambda>_.
     and_then (call NewPage (new_page_result env)) (\<lambda>_.
     and_then (call SetDefaultTimeout (Inr ())) (\<lambda>_.
     and_then (call (Subscribe (lit ''console'')) (Inr ())) (\<lambda>_.
     and_then (call (Subscribe (lit ''request'')) (Inr ())) (\<lambda>_.
     and_then (call (Subscribe (lit ''response'')) (Inr ())) (\<lambda>_.
     and_then (call (Goto target_url) (goto_result env)) (\<lambda>_.
     and_then (call WaitForLoadState (wait_for_load_state_result env)) (\<lambda>_.
     and_then (case wait_for_selector_result env of
                 Inr u \<Rightarrow> call WaitForSelector (Inr u)
               | Inl e \<Rightarrow> ([WaitForSelector, WaitForTimeout], wait_for_timeout_result env)) (\<lambda>_.
     and_then (call AriaSnapshot (aria_snapshot_result env)) (\<lambda>aria_snapshot.
     and_then (call Title (title_result env)) (\<lambda>title.
     and_then (call ContextClose (context_close_result env)) (\<lambda>_.
       ([], Inr (report rt aria_snapshot title (page_url env)
                   (record_events rt (events env)
                      \<lparr>network_requests = [], console_messages = []\<rparr>)))))))))))))))"

text \<open>
  \<^verbatim>\<open>try: ... except Exception as error: ... finally: await browser.close()\<close>, entered
  once the browser is launched. An exception of \<^verbatim>\<open>browser.close()\<close> itself leaves the
  function.
\<close>

definition guarded :: "runtime \<Rightarrow> browser \<Rightarrow> str \<Rightarrow> TextContent list action" where
  "guarded rt env target_url =
     (case capture rt env target_url of
        (t, r) \<Rightarrow>
          (t @ [BrowserClose],
           case browser_close_result env of
             Inl e \<Rightarrow> Inl e
           | Inr u \<Rightarrow>
               (case r of
                  Inl error \<Rightarrow>
                    Inr [\<lparr>tc_type = lit ''text'',
                           tc_text = [10060] @ lit '' Failed: '' @ describe error\<rparr>]
                | Inr units \<Rightarrow> Inr units)))"

text \<open>
  The block of \<^verbatim>\<open>async with async_playwright() as p\<close>: the launch stands before the
  \<^verbatim>\<open>try\<close>, and the driver is stopped on every way out of the block.
\<close>

definition with_playwright :: "runtime \<Rightarrow> browser \<Rightarrow> str \<Rightarrow> TextContent list action" where
  "with_playwright rt env target_url =
     (case start_result env of
        Inl e \<Rightarrow> ([StartPlaywright], Inl e)
      | Inr u \<Rightarrow>
          (case (case launch_result env of
                   Inl e \<Rightarrow> ([Launch], Inl e)
                 | Inr u \<Rightarrow>
                     (case guarded rt env target_url of (t, r) \<Rightarrow> (Launch # t, r))) of
             (t, r) \<Rightarrow>
               (StartPlaywright # t @ [StopPlaywright],
                case stop_result env of Inl e \<Rightarrow> Inl e | Inr u \<Rightarrow> r)))"

definition website_snapshot :: "runtime \<Rightarrow> browser \<Rightarrow> str \<Rightarrow> TextContent list action" where
  "website_snapshot rt env target_url =
     (case is_valid_url rt target_url of
        Inl e \<Rightarrow> ([], Inl e)
      | Inr valid \<Rightarrow>
          if \<not> valid
          then ([], Inr [\<lparr>tc_type = lit ''text'',
                          tc_text = lit ''Url must be valid, example: https://example.com''\<rparr>])
          else with_playwright rt env target_url)"

section \<open>A runtime for the examples\<close>

text \<open>
  A concrete runtime, used to evaluate the functions at concrete inputs. It follows
  CPython on ASCII text: the case mappings change the letters A to Z and a to z only;
  \<open>ascii_int\<close> reads what \<^verbatim>\<open>int\<close> reads in base ten (surrounding whitespace, a sign,
  digits with single underscores between them); \<open>ascii_urlparse\<close> computes the scheme
  and the network location as \<^verbatim>\<open>urllib.parse.urlsplit\<close> does, and raises as it does when
  only one of the brackets of an IPv6 host is there. The later checks of
  \<^verbatim>\<open>urlsplit\<close> (the bracketed host is an address, the location survives NFKC
  normalisation) are left out: they apply to a location with both brackets or with
  non-ASCII characters, and no example has one.
\<close>

definition ascii_lower :: "str \<Rightarrow> str" where
  "ascii_lower s = map (\<lambda>c. if 65 \<le> c \<and> c \<le> 90 then c + 32 else c) s"

definition ascii_upper :: "str \<Rightarrow> str" where
  "ascii_upper s = map (\<lambda>c. if 97 \<le> c \<and> c \<le> 122 then c - 32 else c) s"

definition is_digit :: "nat \<Rightarrow> bool" where
  "is_digit c = (48 \<le> c \<and> c \<le> 57)"

fun decimal_from :: "nat \<Rightarrow> str \<Rightarrow> nat option" where
  "decimal_from acc [] = Some acc"
| "decimal_from acc [c] = (if is_digit c then Some (10 * acc + (c - 48)) else None)"
| "decimal_from acc (c # d # cs) =
     (if is_digit c then decimal_from (10 * acc + (c - 48)) (d # cs)
      else if c = 95 \<and> is_digit d then decimal_from (10 * acc + (d - 48)) cs
      else None)"

definition decimal :: "str \<Rightarrow> nat option" where
  "decimal s =
     (case s of
        [] \<Rightarrow> None
      | c # cs \<Rightarrow> if is_digit c then decimal_from (c - 48) cs else None)"

definition ascii_int :: "str \<Rightarrow> int option" where
  "ascii_int s =
     (case strip s of
        [] \<Rightarrow> None
      | c # cs \<Rightarrow>
          if c = 45 then map_option (\<lambda>n. - int n) (decimal cs)
          else if c = 43 then map_option int (decimal cs)
          else map_option int (decimal (c # cs)))"

definition scheme_char :: "nat \<Rightarrow> bool" where
  "scheme_char c =
     ((97 \<le> c \<and> c \<le> 122) \<or> (65 \<le> c \<and> c \<le> 90) \<or> is_digit c
      \<or> c = 43 \<or> c = 45 \<or> c = 46)"

definition ascii_alpha :: "nat \<Rightarrow> bool" where
  "ascii_alpha c = ((97 \<le> c \<and> c \<le> 122) \<or> (65 \<le> c \<and> c \<le> 90))"

text \<open>The scheme before the first colon, if what stands there is one, and the rest.\<close>

definition split_scheme :: "str \<Rightarrow> str \<times> str" where
  "split_scheme u =
     (case u of
        [] \<Rightarrow> ([], u)
      | c # cs \<Rightarrow>
          (case find_first [58] u of
             None \<Rightarrow> ([], u)
           | Some i \<Rightarrow>
               if 0 < i \<and> ascii_alpha c \<and> list_all scheme_char (take i u)
               then (ascii_lower (take i u), drop (i + 1) u)
               else ([], u)))"

text \<open>The network location: after \<^verbatim>\<open>//\<close>, up to the first of \<^verbatim>\<open>/ ? #\<close>.\<close>

definition split_netloc :: "str \<Rightarrow> str" where
  "split_netloc rest =
     (if take 2 rest = lit ''//''
      then takeWhile (\<lambda>c. c \<noteq> 47 \<and> c \<noteq> 63 \<and> c \<noteq> 35) (drop 2 rest)
      else [])"

definition ascii_urlparse :: "str \<Rightarrow> exn + ParseResult" where
  "ascii_urlparse u =
     (let cleaned = filter (\<lambda>c. c \<noteq> 9 \<and> c \<noteq> 13 \<and> c \<noteq> 10) (dropWhile (\<lambda>c. c \<le> 32) u);
          parts = split_scheme cleaned;
          loc = split_netloc (snd parts)
      in if (91 \<in> set loc \<and> 93 \<notin> set loc) \<or> (93 \<in> set loc \<and> 91 \<notin> set loc)
         then Inl (Exception (lit ''Invalid IPv6 URL''))
         else Inr \<lparr>scheme = fst parts, netloc = loc\<rparr>)"

definition example_runtime :: runtime where
  "example_runtime =
     \<lparr>lower = ascii_lower, upper = ascii_upper, int_of_str = ascii_int,
      urlparse = ascii_urlparse\<rparr>"

section \<open>Example inputs\<close>

definition example_request :: Request where
  "example_request =
     \<lparr>req_id = 1, http_method = lit ''GET'', url = lit ''https://api.example.com/data'',
      post_data = Inr None\<rparr>"

definition example_response :: Response where
  "example_response =
     \<lparr>resp_request = example_request, status = 200,
      headers = [(lit ''content-type'', lit ''application/json''),
                 (lit ''content-length'', lit ''100'')],
      text_result = Inr (lit ''{\"status\": \"ok\"}'')\<rparr>"

definition redirect_response :: Response where
  "redirect_response =
     \<lparr>resp_request = example_request, status = 302,
      headers = [(lit ''content-type'', lit ''text/html''), (lit ''location'', lit ''/next'')],
      text_result = Inl (Exception (lit ''Response body is unavailable for redirect responses''))\<rparr>"

definition image_response :: Response where
  "image_response =
     \<lparr>resp_request = example_request, status = 200,
      headers = [(lit ''content-type'', lit ''image/png''), (lit ''content-length'', lit ''10'')],
      text_result = Inr [137, 80, 78, 71]\<rparr>"

definition large_response :: Response where
  "large_response =
     \<lparr>resp_request = example_request, status = 200,
      headers = [(lit ''content-type'', lit ''text/html''), (lit ''content-length'', lit ''50001'')],
      text_result = Inr (lit ''<html></html>'')\<rparr>"

text \<open>
  A driver on which every call succeeds, with a page of one button and no events.
\<close>

definition example_browser :: browser where
  "example_browser =
     \<lparr>start_result = Inr (), launch_result = Inr (), new_context_result = Inr (),
      new_page_result = Inr (), goto_result = Inr (), wait_for_load_state_result = Inr (),
      wait_for_selector_result = Inr (), wait_for_timeout_result = Inr (),
      aria_snapshot_result = Inr (lit ''button \"Click Me\"''),
      title_result = Inr (lit ''Test Page''), page_url = lit ''https://example.com'',
      context_close_result = Inr (), browser_close_result = Inr (), stop_result = Inr (),
      events = []\<rparr>"

text \<open>An accessibility dump: a heading, four interactive lines, a final newline.\<close>

definition example_snapshot :: str where
  "example_snapshot =
     lit ''heading \"Example Page\"'' @ [10] @ lit ''button \"Submit\" '' @ [10]
     @ lit ''link \"Home\"'' @ [10] @ lit ''textbox \"Email\"'' @ [10]
     @ lit ''button \"Login\"'' @ [10]"

section \<open>Properties of the report formatting\<close>

lemma format_lines_append:
  "format_lines (xs @ ys) = format_lines xs @ format_lines ys"
  by (simp add: format_lines_def)

lemma format_lines_Cons:
  "format_lines (r # rs) = format_entry r @ format_lines rs"
  by (simp add: format_lines_def)

text \<open>
  Claim C9. With no network record the network section is the text
  "No requests captured", and with no console record the console section is the text
  "No console messages".
\<close>

theorem empty_sections:
  "format_requests [] = lit ''No requests captured'' \<and>
   format_console rt [] = lit ''No console messages''"
  by (simp add: format_requests_def format_console_def)

text \<open>
  Claim C10. A record whose response-body summary is the empty string is formatted as a
  record with no summary: it has its request line and the status line of the attached
  response, and no "Response:" line.
\<close>

theorem empty_body_no_response_line:
  "format_entry \<lparr>request = Some rq, response = Some rs, request_body = qb,
                  response_body = Some []\<rparr>
     = [[127760] @ lit '' '' @ http_method rq @ lit '' '' @ url rq,
        lit ''   Status: '' @ str_int (status rs)]
   \<and> format_entry (r\<lparr>response_body := Some []\<rparr>) = format_entry (r\<lparr>response_body := None\<rparr>)
   \<and> format_requests (pre @ r\<lparr>response_body := Some []\<rparr> # post)
       = format_requests (pre @ r\<lparr>response_body := None\<rparr> # post)"
  by (cases "request r") (simp_all add: format_requests_def format_lines_def format_entry_def)



section \<open>Properties of the snapshot annotator\<close>

lemma split_not_Nil [simp]: "split c s \<noteq> []"
  by (induction s) (auto split: list.splits)

lemma split_no_sep: "l \<in> set (split c s) \<Longrightarrow> c \<notin> set l"
  by (induction s arbitrary: l) (auto split: if_splits list.splits)

lemma split_plain: "c \<notin> set l \<Longrightarrow> split c l = [l]"
  by (induction l) auto

lemma split_append_sep: "c \<notin> set l \<Longrightarrow> split c (l @ c # rest) = l # split c rest"
  by (induction l) auto

lemma split_join:
  "ls \<noteq> [] \<Longrightarrow> \<forall>l \<in> set ls. c \<notin> set l \<Longrightarrow> split c (join [c] ls) = ls"
  by (induction "[c]" ls rule: join.induct) (simp_all add: split_plain split_append_sep)

lemma digits_not_Nil [simp]: "digits n \<noteq> []"
  by (subst digits.simps) simp

lemma set_digits: "set (digits n) \<subseteq> {48..57}"
proof (induction n rule: digits.induct)
  case (1 n)
  show ?case
  proof (cases "n < 10")
    case True
    then show ?thesis by (subst digits.simps) simp
  next
    case False
    have "n mod 10 < 10" by simp
    then have "48 + n mod 10 \<in> {48..57}" by simp
    with 1 False show ?thesis by (subst digits.simps) simp
  qed
qed

lemma str_int_not_Nil [simp]: "str_int n \<noteq> []"
  by (simp add: str_int_def)

lemma set_str_int: "set (str_int n) \<subseteq> insert 45 {48..57}"
  using set_digits by (auto simp add: str_int_def)

lemma ref_tag_eq: "ref_tag n = 32 # [91, 114, 101, 102, 61] @ str_int n @ [93]"
  by (simp add: ref_tag_def lit_def)

lemma newline_not_in_ref_tag: "10 \<notin> set (ref_tag n)"
  using set_str_int [of n] by (auto simp add: ref_tag_eq)

lemma length_annotate [simp]: "length (annotate rt n ls) = length ls"
  by (induction ls arbitrary: n) auto

lemma annotate_no_newline:
  "\<forall>l \<in> set ls. 10 \<notin> set l \<Longrightarrow> \<forall>l \<in> set (annotate rt n ls). 10 \<notin> set l"
  by (induction ls arbitrary: n) (auto simp add: newline_not_in_ref_tag)

lemma annotate_nth:
  "i < length ls \<Longrightarrow>
   annotate rt n ls ! i =
     (if interactive rt (ls ! i)
      then ls ! i @ ref_tag (n + int (length (filter (interactive rt) (take i ls))))
      else ls ! i)"
proof (induction ls arbitrary: n i)
  case Nil
  then show ?case by simp
next
  case (Cons l ls)
  show ?case
  proof (cases i)
    case 0
    then show ?thesis by simp
  next
    case (Suc j)
    with Cons.prems have "j < length ls" by simp
    from Cons.IH [OF this] Suc show ?thesis by (simp add: add.assoc)
  qed
qed

lemma lines_add_element_refs:
  "split 10 (add_element_refs rt snapshot) = annotate rt 1 (split 10 snapshot)"
proof -
  have "annotate rt 1 (split 10 snapshot) \<noteq> []"
    using length_annotate [of rt 1 "split 10 snapshot"] split_not_Nil [of 10 snapshot]
    by (metis length_0_conv)
  moreover have "\<forall>l \<in> set (annotate rt 1 (split 10 snapshot)). 10 \<notin> set l"
    by (rule annotate_no_newline) (simp add: split_no_sep)
  ultimately show ?thesis
    by (simp add: add_element_refs_def split_join)
qed

text \<open>
  Claim C8. For every input text the annotated text has as many lines as the input; a
  line that does not match the heuristic is unchanged, character for character; a line
  that matches is the input line followed by its reference tag. So the output lines
  stand in the order of the input lines.
\<close>

theorem add_element_refs_frame:
  "length (split 10 (add_element_refs rt snapshot)) = length (split 10 snapshot)
   \<and> (\<forall>i < length (split 10 snapshot).
        \<not> interactive rt (split 10 snapshot ! i) \<longrightarrow>
        split 10 (add_element_refs rt snapshot) ! i = split 10 snapshot ! i)
   \<and> (\<forall>i < length (split 10 snapshot).
        interactive rt (split 10 snapshot ! i) \<longrightarrow>
        split 10 (add_element_refs rt snapshot) ! i
          = split 10 snapshot ! i
            @ ref_tag (1 + int (length (filter (interactive rt) (take i (split 10 snapshot))))))"
  by (simp add: lines_add_element_refs annotate_nth)

lemma startswith_append_self: "startswith (sub @ rest) sub"
  by (induction sub) auto

lemma startswith_before_space:
  "32 \<notin> set sub \<Longrightarrow> startswith (l @ 32 # r) sub = startswith l sub"
proof (induction l arbitrary: sub)
  case Nil
  then show ?case by (cases sub) auto
next
  case (Cons x xs)
  then show ?case by (cases sub) auto
qed

lemma find_first_self: "sub \<noteq> [] \<Longrightarrow> find_first sub (sub @ rest) = Some 0"
  using startswith_append_self [of sub rest] by (cases sub) auto

lemma find_first_after_space:
  assumes "find_first sub l = None" "32 \<notin> set sub" "sub \<noteq> []"
  shows "find_first sub (l @ 32 # sub @ rest) = Some (Suc (length l))"
  using assms
proof (induction l)
  case Nil
  then have "\<not> startswith (32 # sub @ rest) sub" by (cases sub) auto
  with Nil show ?case by (simp add: find_first_self)
next
  case (Cons x xs)
  from Cons.prems(1) have a: "\<not> startswith (x # xs) sub" and b: "find_first sub xs = None"
    by (auto split: if_splits)
  from a startswith_before_space [OF Cons.prems(2), of "x # xs" "sub @ rest"]
  have "\<not> startswith (x # xs @ 32 # sub @ rest) sub" by simp
  with Cons.IH [OF b Cons.prems(2,3)] show ?case by simp
qed

lemma find_first_single: "c \<notin> set d \<Longrightarrow> find_first [c] (d @ c # r) = Some (length d)"
  by (induction d) auto

lemma is_space_32 [simp]: "is_space 32"
  by (simp add: is_space_def)

lemma strip_trailing_space: "strip (l @ [32]) = strip l"
proof (cases "\<forall>c \<in> set l. is_space c")
  case True
  then have a: "dropWhile is_space l = []" by simp
  have b: "dropWhile is_space (l @ [32]) = dropWhile is_space [32]"
    by (rule dropWhile_append2) (simp add: True)
  show ?thesis unfolding strip_def a b by simp
next
  case False
  then have "dropWhile is_space (l @ [32]) = dropWhile is_space l @ [32]"
    by (auto simp add: dropWhile_append1)
  then show ?thesis by (simp add: strip_def)
qed

lemma norm_index_nat: "0 \<le> i \<Longrightarrow> nat i \<le> n \<Longrightarrow> norm_index n i = nat i"
  by (simp add: norm_index_def)

lemma parse_line_plain: "\<not> contains (lit ''[ref='') l \<Longrightarrow> parse_line l = []"
  by (simp add: parse_line_def)

lemma parse_line_found:
  assumes "contains (lit ''[ref='') line"
    and "str_find line (lit ''[ref='') 0 = a"
    and "str_find line (lit '']'') (nat (a + 5)) = b"
    and "a + 5 < b"
  shows "parse_line line = [\<lparr>ref = slice line (a + 5) b, element = strip (slice line 0 a)\<rparr>]"
  using assms by (simp add: parse_line_def Let_def)

lemma parse_line_tagged:
  assumes "\<not> contains (lit ''[ref='') l"
  shows "parse_line (l @ ref_tag n) = [\<lparr>ref = str_int n, element = strip l\<rparr>]"
proof -
  define R :: str where "R = [91, 114, 101, 102, 61]"
  define d where "d = str_int n"
  define line where "line = l @ 32 # R @ d @ [93]"
  define a where "a = int (length l + 1)"
  define b where "b = int (length l + 6 + length d)"
  have R: "lit ''[ref='' = R" and B: "lit '']'' = [93]"
    by (simp_all add: lit_def R_def)
  have line: "l @ ref_tag n = line"
    by (simp add: ref_tag_eq line_def R_def d_def)
  have len: "length line = length l + 7 + length d"
    by (simp add: line_def R_def)
  have d_ok: "93 \<notin> set d" "d \<noteq> []"
    using set_str_int [of n] by (auto simp add: d_def)
  from assms have "find_first R l = None"
    by (simp add: contains_def R)
  then have f1: "find_first R line = Some (Suc (length l))"
    unfolding line_def by (rule find_first_after_space) (simp_all add: R_def)
  then have c: "contains (lit ''[ref='') line" by (simp add: contains_def R)
  have s1: "str_find line (lit ''[ref='') 0 = a"
    using f1 by (simp add: str_find_def R a_def)
  have start: "nat (a + 5) = length l + 6"
    by (simp add: a_def)
  have dr: "drop (length l + 6) line = d @ [93]"
    by (simp add: line_def R_def)
  have s2: "str_find line (lit '']'') (nat (a + 5)) = b"
    using find_first_single [OF d_ok(1), of "[]"] len
    by (simp add: str_find_def dr start B b_def)
  have lt: "a + 5 < b"
    using d_ok(2) by (simp add: a_def b_def)
  have sl1: "slice line (a + 5) b = d"
  proof -
    have "norm_index (length line) (a + 5) = length l + 6"
      using len by (subst norm_index_nat) (simp_all add: a_def)
    moreover have "norm_index (length line) b = length l + 6 + length d"
      using len by (subst norm_index_nat) (simp_all add: b_def)
    ultimately show ?thesis by (simp add: slice_def dr)
  qed
  have sl2: "slice line 0 a = l @ [32]"
  proof -
    have "norm_index (length line) a = length l + 1"
      using len by (subst norm_index_nat) (simp_all add: a_def)
    moreover have "norm_index (length line) 0 = 0"
      by (simp add: norm_index_def)
    ultimately show ?thesis by (simp add: slice_def line_def)
  qed
  from parse_line_found [OF c s1 s2 lt]
  have "parse_line line = [\<lparr>ref = d, element = strip (l @ [32])\<rparr>]"
    by (simp only: sl1 sl2)
  then show ?thesis
    by (simp add: line d_def strip_trailing_space)
qed

lemma parse_annotate:
  "\<forall>l \<in> set ls. \<not> contains (lit ''[ref='') l \<Longrightarrow>
   concat (map parse_line (annotate rt (int k) ls))
     = map (\<lambda>(i, l). \<lparr>ref = str_int (int i), element = strip l\<rparr>)
         (enumerate k (filter (interactive rt) ls))"
proof (induction ls arbitrary: k)
  case Nil
  then show ?case by simp
next
  case (Cons l ls)
  from Cons.prems have l: "\<not> contains (lit ''[ref='') l"
    and ls: "\<forall>l \<in> set ls. \<not> contains (lit ''[ref='') l"
    by simp_all
  show ?case
  proof (cases "interactive rt l")
    case True
    from Cons.IH [OF ls, of "Suc k"] True parse_line_tagged [OF l, of "int k"]
    show ?thesis by (simp add: add.commute)
  next
    case False
    with Cons.IH [OF ls, of k] l show ?thesis
      by (simp add: parse_line_plain)
  qed
qed

lemma tags_annotate:
  "map snd (filter (\<lambda>p. interactive rt (fst p)) (zip ls (annotate rt (int k) ls)))
     = map (\<lambda>(i, l). l @ ref_tag (int i)) (enumerate k (filter (interactive rt) ls))"
proof (induction ls arbitrary: k)
  case Nil
  then show ?case by simp
next
  case (Cons l ls)
  show ?case
  proof (cases "interactive rt l")
    case True
    from Cons.IH [of "Suc k"] True show ?thesis by (simp add: add.commute)
  next
    case False
    with Cons.IH [of k] show ?thesis by simp
  qed
qed

text \<open>
  Claim C3, as the code has it. For a snapshot text none of whose lines contains
  "[ref=" already, with N lines matching the heuristic: the matching lines, in line
  order, get the tags " [ref=1]" to " [ref=N]", and parsing the annotated text gives
  exactly N entries in the same order, the i-th pairing the decimal text of i with the
  trimmed text of the i-th matching line.
\<close>

theorem refs_round_trip:
  assumes "\<forall>l \<in> set (split 10 snapshot). \<not> contains (lit ''[ref='') l"
  shows "map snd (filter (\<lambda>p. interactive rt (fst p))
                   (zip (split 10 snapshot) (split 10 (add_element_refs rt snapshot))))
           = map (\<lambda>(i, l). l @ ref_tag (int i))
               (enumerate 1 (filter (interactive rt) (split 10 snapshot)))
    \<and> parse_refs (add_element_refs rt snapshot)
        = map (\<lambda>(i, l). \<lparr>ref = str_int (int i), element = strip l\<rparr>)
            (enumerate 1 (filter (interactive rt) (split 10 snapshot)))
    \<and> length (parse_refs (add_element_refs rt snapshot))
        = length (filter (interactive rt) (split 10 snapshot))"
proof -
  have one: "(1::int) = int 1" by simp
  have tags: "map snd (filter (\<lambda>p. interactive rt (fst p))
                   (zip (split 10 snapshot) (split 10 (add_element_refs rt snapshot))))
           = map (\<lambda>(i, l). l @ ref_tag (int i))
               (enumerate 1 (filter (interactive rt) (split 10 snapshot)))"
    unfolding lines_add_element_refs by (subst one) (rule tags_annotate)
  have parsed: "parse_refs (add_element_refs rt snapshot)
        = map (\<lambda>(i, l). \<lparr>ref = str_int (int i), element = strip l\<rparr>)
            (enumerate 1 (filter (interactive rt) (split 10 snapshot)))"
    unfolding parse_refs_def lines_add_element_refs
    by (subst one) (rule parse_annotate [OF assms])
  from tags parsed show ?thesis by simp
qed

lemma example_no_refs:
  "\<forall>l \<in> set (split 10 example_snapshot). \<not> contains (lit ''[ref='') l"
  by code_simp

lemma example_entries:
  "map (\<lambda>(i, l). \<lparr>ref = str_int (int i), element = strip l\<rparr>)
     (enumerate 1 (filter (interactive example_runtime) (split 10 example_snapshot)))
   = [\<lparr>ref = lit ''1'', element = lit ''button \"Submit\"''\<rparr>,
      \<lparr>ref = lit ''2'', element = lit ''link \"Home\"''\<rparr>,
      \<lparr>ref = lit ''3'', element = lit ''textbox \"Email\"''\<rparr>,
      \<lparr>ref = lit ''4'', element = lit ''button \"Login\"''\<rparr>]"
  by code_simp

theorem refs_round_trip_witness:
  "parse_refs (add_element_refs example_runtime example_snapshot)
   = [\<lparr>ref = lit ''1'', element = lit ''button \"Submit\"''\<rparr>,
      \<lparr>ref = lit ''2'', element = lit ''link \"Home\"''\<rparr>,
      \<lparr>ref = lit ''3'', element = lit ''textbox \"Email\"''\<rparr>,
      \<lparr>ref = lit ''4'', element = lit ''button \"Login\"''\<rparr>]"
  using refs_round_trip [OF example_no_refs, of example_runtime] example_entries
  by (simp only:)

text \<open>
  Claim C3 as stated fails on text that contains "[ref=" before annotation: a matching
  line that has such a marker is parsed at its own marker, not at the appended tag, and
  a line that does not match but has a marker gives an entry although N is zero.
\<close>

theorem refs_not_recovered:
  "filter (interactive example_runtime) (split 10 (lit ''button [ref=x]''))
     = [lit ''button [ref=x]'']
   \<and> parse_refs (add_element_refs example_runtime (lit ''button [ref=x]''))
       = [\<lparr>ref = lit ''x'', element = lit ''button''\<rparr>]
   \<and> filter (interactive example_runtime) (split 10 (lit ''see [ref=7]'')) = []
   \<and> parse_refs (add_element_refs example_runtime (lit ''see [ref=7]''))
       = [\<lparr>ref = lit ''7'', element = lit ''see''\<rparr>]"
  by code_simp

lemma example_lines:
  "split 10 example_snapshot
   = [lit ''heading \"Example Page\"'', lit ''button \"Submit\" '', lit ''link \"Home\"'',
      lit ''textbox \"Email\"'', lit ''button \"Login\"'', []]"
  by code_simp

lemma example_flags:
  "map (interactive example_runtime) (split 10 example_snapshot)
   = [False, True, True, True, True, False]"
  by code_simp

theorem add_element_refs_frame_witness:
  "length (split 10 (add_element_refs example_runtime example_snapshot)) = 6
   \<and> split 10 (add_element_refs example_runtime example_snapshot) ! 0
       = lit ''heading \"Example Page\"''
   \<and> split 10 (add_element_refs example_runtime example_snapshot) ! 2
       = lit ''link \"Home\"'' @ ref_tag 2"
proof -
  note frame = add_element_refs_frame [of example_runtime example_snapshot]
  note flags = example_flags [unfolded example_lines, simplified]
  have "length (split 10 (add_element_refs example_runtime example_snapshot)) = 6"
    using frame by (simp add: example_lines)
  moreover have "split 10 (add_element_refs example_runtime example_snapshot) ! 0
       = lit ''heading \"Example Page\"''"
    using frame [THEN conjunct2, THEN conjunct1, rule_format, of 0] flags
    by (simp add: example_lines)
  moreover have "split 10 (add_element_refs example_runtime example_snapshot) ! 2
       = lit ''link \"Home\"'' @ ref_tag 2"
    using frame [THEN conjunct2, THEN conjunct2, rule_format, of 2] flags
    by (simp add: example_lines)
  ultimately show ?thesis by simp
qed

section \<open>Properties of the URL validator\<close>

lemma example_absolute_url:
  "urlparse example_runtime (lit ''https://example.com'')
     = Inr \<lparr>scheme = lit ''https'', netloc = lit ''example.com''\<rparr>"
  by code_simp

lemma example_relative_url:
  "urlparse example_runtime (lit ''not-a-valid-url'') = Inr \<lparr>scheme = [], netloc = []\<rparr>"
  by code_simp

lemma example_invalid: "is_valid_url example_runtime (lit ''not-a-valid-url'') = Inr False"
  by code_simp

lemma example_valid: "is_valid_url example_runtime (lit ''https://example.com'') = Inr True"
  by code_simp

text \<open>
  Claim C5, as the code has it. Whenever the URL parser returns, the validator returns
  true if and only if the parsed scheme and network location are both non-empty, and
  false otherwise.
\<close>

theorem is_valid_url_parsed:
  "(is_valid_url rt u = Inr True \<longleftrightarrow>
      (\<exists>p. urlparse rt u = Inr p \<and> scheme p \<noteq> [] \<and> netloc p \<noteq> []))
   \<and> (\<forall>p. urlparse rt u = Inr p \<longrightarrow>
         is_valid_url rt u = Inr (scheme p \<noteq> [] \<and> netloc p \<noteq> []))"
  by (auto simp add: is_valid_url_def split: sum.splits)

theorem is_valid_url_parsed_witness:
  "is_valid_url example_runtime (lit ''https://example.com'') = Inr True
   \<and> is_valid_url example_runtime (lit ''not-a-valid-url'') = Inr False"
  using is_valid_url_parsed [of example_runtime "lit ''https://example.com''"]
    is_valid_url_parsed [of example_runtime "lit ''not-a-valid-url''"]
    example_absolute_url example_relative_url
  by (simp add: lit_def)

text \<open>
  Claim C5 as stated fails: on a string whose network location has an opening bracket
  and no closing one the parser raises, and the validator, which has no handler, raises
  with it instead of returning false.
\<close>

theorem is_valid_url_raises:
  "is_valid_url example_runtime (lit ''http://['') = Inl (Exception (lit ''Invalid IPv6 URL''))"
  by code_simp

section \<open>Properties of the network recorder\<close>

lemma handle_response_length [simp]:
  "length (handle_response rt resp recs) = length recs"
  by (induction recs) auto

lemma handle_response_first:
  "handle_response rt resp recs =
     (let i = length (takeWhile (\<lambda>e. \<not> awaits resp e) recs)
      in if i < length recs
         then recs[i := (recs ! i)\<lparr>response := Some resp,
                                   response_body := Some (captured_body rt resp)\<rparr>]
         else recs)"
  by (induction recs) (auto simp add: Let_def)

lemma handle_response_none:
  "\<not> list_ex (awaits resp) recs \<Longrightarrow> handle_response rt resp recs = recs"
  by (induction recs) auto

lemma handle_response_keeps:
  "i < length recs \<Longrightarrow> response (recs ! i) = Some r \<Longrightarrow>
   handle_response rt resp recs ! i = recs ! i"
  by (induction recs arbitrary: i) (auto simp add: awaits_def nth_Cons split: nat.splits)

lemma handle_response_request:
  "i < length recs \<Longrightarrow> request (handle_response rt resp recs ! i) = request (recs ! i)"
  by (induction recs arbitrary: i) (auto simp add: nth_Cons split: nat.splits)

lemma handle_event_keeps:
  "i < length (network_requests s) \<Longrightarrow> response (network_requests s ! i) = Some r \<Longrightarrow>
   i < length (network_requests (handle_event rt s ev))
   \<and> network_requests (handle_event rt s ev) ! i = network_requests s ! i"
  by (cases ev) (auto simp add: handle_request_def nth_append handle_response_keeps)

lemma record_events_keeps:
  "i < length (network_requests s) \<Longrightarrow> response (network_requests s ! i) = Some r \<Longrightarrow>
   i < length (network_requests (record_events rt evs s))
   \<and> network_requests (record_events rt evs s) ! i = network_requests s ! i"
proof (induction evs arbitrary: s)
  case Nil
  then show ?case by (simp add: record_events_def)
next
  case (Cons ev evs)
  from handle_event_keeps [OF Cons.prems, of rt ev]
  have a: "i < length (network_requests (handle_event rt s ev))"
    and b: "network_requests (handle_event rt s ev) ! i = network_requests s ! i"
    by simp_all
  from b Cons.prems have "response (network_requests (handle_event rt s ev) ! i) = Some r"
    by simp
  from Cons.IH [OF a this] b show ?case
    by (simp add: record_events_def)
qed

lemma first_awaiting_less:
  "list_ex P recs \<Longrightarrow> length (takeWhile (\<lambda>e. \<not> P e) recs) < length recs"
  by (induction recs) auto

lemma handle_response_body:
  assumes "list_ex (awaits resp) recs"
  shows "response_body
           (handle_response rt resp recs ! length (takeWhile (\<lambda>e. \<not> awaits resp e) recs))
         = Some (captured_body rt resp)"
  using first_awaiting_less [OF assms]
  by (simp add: handle_response_first Let_def)

text \<open>
  Claim C4. A response changes at most one record: the first in arrival order whose
  request handle is the response's request and which has no response yet gets the
  response and its body; when there is no such record (the request was matched before,
  or never recorded) the list is unchanged. Over any sequence of events, a record that
  has a response keeps its place and is never changed again, so no second response
  attaches to it.
\<close>

theorem response_attaches_once:
  "handle_response rt resp recs =
     (let i = length (takeWhile (\<lambda>e. \<not> awaits resp e) recs)
      in if i < length recs
         then recs[i := (recs ! i)\<lparr>response := Some resp,
                                   response_body := Some (captured_body rt resp)\<rparr>]
         else recs)
   \<and> (\<not> list_ex (awaits resp) recs \<longrightarrow> handle_response rt resp recs = recs)
   \<and> (\<forall>i r. i < length (network_requests s) \<and> response (network_requests s ! i) = Some r \<longrightarrow>
         i < length (network_requests (record_events rt evs s))
         \<and> network_requests (record_events rt evs s) ! i = network_requests s ! i)"
  using handle_response_first [of rt resp recs] handle_response_none [of resp recs rt]
    record_events_keeps [of _ s _ rt evs]
  by blast

text \<open>
  Claim C2, as the code has it. When the content-length header (\<open>0\<close> when missing)
  reads as the integer \<open>n\<close>: if \<open>n\<close> is at most 50000 and the content-type starts with
  "application/json", "text/" or "application/xml", the captured body is the decoded text
  when reading it succeeds and "[Error reading response]" when it raises; otherwise it
  is the placeholder "[content-type - n bytes]". When the header does not read as an
  integer the captured body is "[Error reading response]". The record the response
  attaches to, the first that awaits it, gets this body.
\<close>

theorem captured_body_policy:
  "(\<forall>n. int_of_str rt (header (headers resp) (lit ''content-length'') (lit ''0'')) = Some n \<longrightarrow>
      captured_body rt resp =
        (let content_type = header (headers resp) (lit ''content-type'') []
         in if n \<le> 50000 \<and>
               (startswith content_type (lit ''application/json'')
                \<or> startswith content_type (lit ''text/'')
                \<or> startswith content_type (lit ''application/xml''))
            then (case text_result resp of
                    Inr body \<Rightarrow> body
                  | Inl e \<Rightarrow> lit ''[Error reading response]'')
            else lit ''['' @ content_type @ lit '' - '' @ str_int n @ lit '' bytes]''))
   \<and> (int_of_str rt (header (headers resp) (lit ''content-length'') (lit ''0'')) = None \<longrightarrow>
        captured_body rt resp = lit ''[Error reading response]'')
   \<and> (\<forall>recs. list_ex (awaits resp) recs \<longrightarrow>
        response_body
          (handle_response rt resp recs ! length (takeWhile (\<lambda>e. \<not> awaits resp e) recs))
          = Some (captured_body rt resp))"
proof -
  have "captured_body rt resp =
        (let content_type = header (headers resp) (lit ''content-type'') []
         in if n \<le> 50000 \<and>
               (startswith content_type (lit ''application/json'')
                \<or> startswith content_type (lit ''text/'')
                \<or> startswith content_type (lit ''application/xml''))
            then (case text_result resp of
                    Inr body \<Rightarrow> body
                  | Inl e \<Rightarrow> lit ''[Error reading response]'')
            else lit ''['' @ content_type @ lit '' - '' @ str_int n @ lit '' bytes]'')"
    if "int_of_str rt (header (headers resp) (lit ''content-length'') (lit ''0'')) = Some n"
    for n
    using that
    by (auto simp add: captured_body_def should_show_content_def Let_def split: sum.splits)
  moreover have "captured_body rt resp = lit ''[Error reading response]''"
    if "int_of_str rt (header (headers resp) (lit ''content-length'') (lit ''0'')) = None"
    using that by (simp add: captured_body_def)
  ultimately show ?thesis
    using handle_response_body [of resp _ rt] by blast
qed

lemma example_lengths:
  "int_of_str example_runtime (lit ''100'') = Some 100"
  "int_of_str example_runtime (lit ''10'') = Some 10"
  "int_of_str example_runtime (lit ''50001'') = Some 50001"
  "int_of_str example_runtime (lit ''0'') = Some 0"
  by (simp_all add: example_runtime_def ascii_int_def strip_def is_space_def lit_def
      decimal_def is_digit_def)

theorem captured_body_policy_witness:
  "captured_body example_runtime example_response = lit ''{\"status\": \"ok\"}''
   \<and> captured_body example_runtime image_response = lit ''[image/png - 10 bytes]''
   \<and> captured_body example_runtime large_response = lit ''[text/html - 50001 bytes]''"
  using captured_body_policy [of example_runtime example_response]
    captured_body_policy [of example_runtime image_response]
    captured_body_policy [of example_runtime large_response]
    example_lengths
  by (simp add: example_response_def image_response_def large_response_def header_def
      lit_def str_int_def digits.simps)

text \<open>
  Claim C2 as stated fails: a redirect response of type text/html with no
  content-length passes the test for showing the content, but reading its body raises,
  and what is captured is neither the text nor the placeholder with type and length.
\<close>

theorem captured_body_error:
  "should_show_content (header (headers redirect_response) (lit ''content-type'') []) 0
   \<and> captured_body example_runtime redirect_response = lit ''[Error reading response]''"
  using example_lengths
  by (simp add: captured_body_def should_show_content_def redirect_response_def header_def
      lit_def)

lemma example_captured:
  "captured_body example_runtime example_response = lit ''{\"status\": \"ok\"}''"
  using example_lengths
  by (simp add: captured_body_def should_show_content_def example_response_def header_def
      lit_def)

theorem response_attaches_once_witness:
  "network_requests
     (record_events example_runtime
        [RequestEvent example_request, ResponseEvent example_response,
         ResponseEvent redirect_response]
        \<lparr>network_requests = [], console_messages = []\<rparr>)
   = [\<lparr>request = Some example_request, response = Some example_response,
       request_body = None, response_body = Some (lit ''{\"status\": \"ok\"}'')\<rparr>]"
  using example_captured
    response_attaches_once
      [of example_runtime redirect_response
          "[\<lparr>request = Some example_request, response = Some example_response,
             request_body = None, response_body = Some (lit ''{\"status\": \"ok\"}'')\<rparr>]"]
  by (simp add: record_events_def handle_request_def awaits_def redirect_response_def
      example_response_def example_request_def example_runtime_def ascii_upper_def lit_def)

section \<open>Properties of the orchestrator\<close>

text \<open>
  Claim C6. When the validator rejects the target URL, the result is exactly one text
  unit with the fixed validation message, and no call on the browser driver is made:
  no launch, no navigation, no subscription.
\<close>

theorem invalid_url_no_browser_work:
  "is_valid_url rt target_url = Inr False \<Longrightarrow>
   website_snapshot rt env target_url
     = ([], Inr [\<lparr>tc_type = lit ''text'',
                  tc_text = lit ''Url must be valid, example: https://example.com''\<rparr>])"
  by (simp add: website_snapshot_def)

theorem invalid_url_no_browser_work_witness:
  "\<forall>env. website_snapshot example_runtime env (lit ''not-a-valid-url'')
     = ([], Inr [\<lparr>tc_type = lit ''text'',
                  tc_text = lit ''Url must be valid, example: https://example.com''\<rparr>])"
  using invalid_url_no_browser_work [OF example_invalid] by simp

lemma fst_call [simp]: "fst (call eff outcome) = [eff]"
  by (simp add: call_def)

lemma snd_call [simp]: "snd (call eff outcome) = outcome"
  by (simp add: call_def)

lemma snd_and_then_raises:
  "snd m = Inl e \<Longrightarrow> snd (and_then m f) = Inl e"
  by (cases m) (simp add: and_then_def)

lemma snd_and_then_returns:
  "snd m = Inr a \<Longrightarrow> snd (and_then m f) = snd (f a)"
  by (cases m) (simp add: and_then_def split: prod.splits)

lemma no_close_and_then:
  assumes "BrowserClose \<notin> set (fst m)" and "\<And>a. BrowserClose \<notin> set (fst (f a))"
  shows "BrowserClose \<notin> set (fst (and_then m f))"
proof (cases m)
  case (Pair t r)
  show ?thesis
  proof (cases r)
    case (Inl e)
    with Pair assms(1) show ?thesis by (simp add: and_then_def)
  next
    case (Inr a)
    obtain t' r' where f: "f a = (t', r')" by (cases "f a")
    with assms(2) [of a] have "BrowserClose \<notin> set t'" by simp
    with Pair Inr f assms(1) show ?thesis by (simp add: and_then_def)
  qed
qed

lemma capture_no_close: "BrowserClose \<notin> set (fst (capture rt env u))"
  unfolding capture_def
  by (intro no_close_and_then) (simp_all split: sum.splits)

lemma guarded_close_once: "count_list (fst (guarded rt env u)) BrowserClose = 1"
  using capture_no_close [of rt env u]
  by (cases "capture rt env u") (simp add: guarded_def)

lemma website_snapshot_launched:
  assumes "is_valid_url rt u = Inr True" "start_result env = Inr ()"
    "launch_result env = Inr ()"
  shows "fst (website_snapshot rt env u)
           = StartPlaywright # Launch # fst (guarded rt env u) @ [StopPlaywright]"
    and "stop_result env = Inr () \<Longrightarrow>
         snd (website_snapshot rt env u) = snd (guarded rt env u)"
  using assms
  by (simp_all add: website_snapshot_def with_playwright_def split: prod.splits)

lemma capture_context_fails:
  "new_context_result env = Inl error \<Longrightarrow> snd (capture rt env u) = Inl error"
  by (simp add: capture_def snd_and_then_raises)

lemma capture_goto_fails:
  "new_context_result env = Inr () \<Longrightarrow> new_page_result env = Inr () \<Longrightarrow>
   goto_result env = Inl error \<Longrightarrow> snd (capture rt env u) = Inl error"
  by (simp add: capture_def snd_and_then_raises snd_and_then_returns)

text \<open>
  The other awaited calls of the guarded block, each with the calls before it returning:
  an exception of any of them is the exception of the block, and when all return the
  block returns the report.
\<close>

lemma capture_raises:
  "new_context_result env = Inr () \<Longrightarrow> new_page_result env = Inl error \<Longrightarrow>
   snd (capture rt env u) = Inl error"
  "new_context_result env = Inr () \<Longrightarrow> new_page_result env = Inr () \<Longrightarrow>
   goto_result env = Inr () \<Longrightarrow> wait_for_load_state_result env = Inl error \<Longrightarrow>
   snd (capture rt env u) = Inl error"
  "new_context_result env = Inr () \<Longrightarrow> new_page_result env = Inr () \<Longrightarrow>
   goto_result env = Inr () \<Longrightarrow> wait_for_load_state_result env = Inr () \<Longrightarrow>
   wait_for_selector_result env = Inl e \<Longrightarrow> wait_for_timeout_result env = Inl error \<Longrightarrow>
   snd (capture rt env u) = Inl error"
  "new_context_result env = Inr () \<Longrightarrow> new_page_result env = Inr () \<Longrightarrow>
   goto_result env = Inr () \<Longrightarrow> wait_for_load_state_result env = Inr () \<Longrightarrow>
   wait_for_selector_result env = Inr () \<or> wait_for_timeout_result env = Inr () \<Longrightarrow>
   aria_snapshot_result env = Inl error \<Longrightarrow>
   snd (capture rt env u) = Inl error"
  "new_context_result env = Inr () \<Longrightarrow> new_page_result env = Inr () \<Longrightarrow>
   goto_result env = Inr () \<Longrightarrow> wait_for_load_state_result env = Inr () \<Longrightarrow>
   wait_for_selector_result env = Inr () \<or> wait_for_timeout_result env = Inr () \<Longrightarrow>
   aria_snapshot_result env = Inr a \<Longrightarrow> title_result env = Inl error \<Longrightarrow>
   snd (capture rt env u) = Inl error"
  "new_context_result env = Inr () \<Longrightarrow> new_page_result env = Inr () \<Longrightarrow>
   goto_result env = Inr () \<Longrightarrow> wait_for_load_state_result env = Inr () \<Longrightarrow>
   wait_for_selector_result env = Inr () \<or> wait_for_timeout_result env = Inr () \<Longrightarrow>
   aria_snapshot_result env = Inr a \<Longrightarrow> title_result env = Inr t \<Longrightarrow>
   context_close_result env = Inl error \<Longrightarrow>
   snd (capture rt env u) = Inl error"
  by (auto simp add: capture_def snd_and_then_raises snd_and_then_returns split: sum.splits)

lemma capture_returns:
  "new_context_result env = Inr () \<Longrightarrow> new_page_result env = Inr () \<Longrightarrow>
   goto_result env = Inr () \<Longrightarrow> wait_for_load_state_result env = Inr () \<Longrightarrow>
   wait_for_selector_result env = Inr () \<or> wait_for_timeout_result env = Inr () \<Longrightarrow>
   aria_snapshot_result env = Inr a \<Longrightarrow> title_result env = Inr t \<Longrightarrow>
   context_close_result env = Inr () \<Longrightarrow>
   snd (capture rt env u)
     = Inr (report rt a t (page_url env)
              (record_events rt (events env) \<lparr>network_requests = [], console_messages = []\<rparr>))"
  by (auto simp add: capture_def snd_and_then_raises snd_and_then_returns split: sum.splits)

text \<open>
  After the launch. Once the URL is valid and the browser is launched, the browser is
  closed exactly once, whatever happens. Every exception raised inside the guarded
  block, of which a failed context creation and a failed navigation are instances, is
  caught there: when closing the browser and stopping the driver succeed, the result is
  exactly one text unit, whose text is the cross mark, " Failed: " and the description of
  the error.
\<close>

theorem failure_after_launch:
  assumes "is_valid_url rt u = Inr True" "start_result env = Inr ()"
    "launch_result env = Inr ()"
  shows "count_list (fst (website_snapshot rt env u)) BrowserClose = 1
    \<and> (\<forall>error. snd (capture rt env u) = Inl error \<and> browser_close_result env = Inr ()
          \<and> stop_result env = Inr () \<longrightarrow>
          snd (website_snapshot rt env u)
            = Inr [\<lparr>tc_type = lit ''text'',
                     tc_text = [10060] @ lit '' Failed: '' @ describe error\<rparr>])
    \<and> (\<forall>error. new_context_result env = Inl error \<longrightarrow> snd (capture rt env u) = Inl error)
    \<and> (\<forall>error. new_context_result env = Inr () \<and> new_page_result env = Inr ()
          \<and> goto_result env = Inl error \<longrightarrow> snd (capture rt env u) = Inl error)"
proof -
  have "count_list (fst (website_snapshot rt env u)) BrowserClose = 1"
    using guarded_close_once [of rt env u]
    by (simp add: website_snapshot_launched(1) [OF assms])
  moreover have "snd (website_snapshot rt env u)
      = Inr [\<lparr>tc_type = lit ''text'', tc_text = [10060] @ lit '' Failed: '' @ describe error\<rparr>]"
    if "snd (capture rt env u) = Inl error" "browser_close_result env = Inr ()"
      "stop_result env = Inr ()" for error
    using that
    by (cases "capture rt env u") (simp add: website_snapshot_launched(2) [OF assms] guarded_def)
  ultimately show ?thesis
    using capture_context_fails [of env _ rt u] capture_goto_fails [of env _ rt u]
    by blast
qed

theorem failure_after_launch_witness:
  "website_snapshot example_runtime
     (example_browser\<lparr>new_context_result :=
        Inl (Exception (lit ''Browser context creation failed''))\<rparr>)
     (lit ''https://example.com'')
   = ([StartPlaywright, Launch, NewContext, BrowserClose, StopPlaywright],
      Inr [\<lparr>tc_type = lit ''text'',
             tc_text = [10060] @ lit '' Failed: Browser context creation failed''\<rparr>])"
  using failure_after_launch
          [OF example_valid, of "example_browser\<lparr>new_context_result :=
             Inl (Exception (lit ''Browser context creation failed''))\<rparr>"]
    example_valid
  by (simp add: website_snapshot_def with_playwright_def guarded_def capture_def
      and_then_def call_def example_browser_def lit_def)

text \<open>
  Claim C1. The claim is that every exception raised during the capture, a browser
  launch failure included, is caught at the orchestrator boundary and returned as exactly
  one text unit with "Failed:" and the description of the error, the browser being closed
  exactly once. The code departs from it at a launch failure: the launch stands one line
  before the \<^verbatim>\<open>try\<close>, so on a valid URL with a driver whose launch raises, the exception
  leaves the function, no text unit is returned and no close of the browser is among the
  calls made.
\<close>

theorem launch_failure_escapes:
  "website_snapshot example_runtime
     (example_browser\<lparr>launch_result := Inl (Exception (lit ''Executable does not exist''))\<rparr>)
     (lit ''https://example.com'')
   = ([StartPlaywright, Launch, StopPlaywright],
      Inl (Exception (lit ''Executable does not exist'')))"
  using example_valid
  by (simp add: website_snapshot_def with_playwright_def example_browser_def)

end
